theory Spec2Isabelle
  imports Main "HOL-Library.Char_ord" "HOL-Library.Product_Lexorder"
begin

section \<open>Version resolution of \<^verbatim>\<open>scripts/pysolc.py\<close>\<close>

text \<open>
  A shallow embedding of the version logic of \<^verbatim>\<open>scripts/pysolc.py\<close>: the class
  \<^verbatim>\<open>SolidityVersion\<close> (with the parts of \<^verbatim>\<open>distutils.version.StrictVersion\<close>
  it inherits), the pattern \<^verbatim>\<open>comp_version_rex\<close>, the table \<^verbatim>\<open>ops\<close>, and the
  functions \<^verbatim>\<open>set_supported_solc_versions\<close>, \<^verbatim>\<open>parse_version\<close> and
  \<^verbatim>\<open>compile_solfiles\<close> (its remapping and its choice of the compiler version).

  Conventions of the model.
  \<^item> A Python \<^verbatim>\<open>str\<close> is a \<open>string\<close>; each \<open>char\<close> stands for one code point below 256.
    In that range the decimal digits matched by \<^verbatim>\<open>\d\<close> are exactly \<^verbatim>\<open>0\<close> to \<^verbatim>\<open>9\<close>.
    Beyond it \<^verbatim>\<open>comp_version_rex\<close>, compiled without \<^verbatim>\<open>re.ASCII\<close>, also matches other
    decimal digits, which \<^verbatim>\<open>StrictVersion\<close> rejects with \<^verbatim>\<open>ValueError\<close>; a file with such
    digits is not an input of the model, and no theorem below speaks for it.
  \<^item> The components of a version are results of \<^verbatim>\<open>int\<close> on a digit string, hence
    natural numbers of any size: they are of type \<open>nat\<close>.
  \<^item> An exception is a value of type \<open>error\<close>; a function that may raise returns
    \<open>error + 'a\<close>, with \<open>Inl\<close> for the exception.
  \<^item> A source file is the list of its lines, as \<^verbatim>\<open>readlines\<close> returns them. Failures of
    \<^verbatim>\<open>open\<close> are outside the model.
  \<^item> \<^verbatim>\<open>os.path\<close> is \<^verbatim>\<open>posixpath\<close> (the program looks for the Linux compiler binary).
\<close>

subsection \<open>Exceptions\<close>

datatype error =
    ValueError
  | IndexError
  | KeyError
  | AttributeError
  | RequestException
  | CompilerVersionNotSupported string

subsection \<open>Digits: \<^verbatim>\<open>int\<close> and \<^verbatim>\<open>str\<close> on non-negative integers\<close>

definition is_digit :: "char \<Rightarrow> bool" where
  "is_digit c = (c \<in> set ''0123456789'')"

definition digit_val :: "char \<Rightarrow> nat" where
  "digit_val c = of_char c - 48"

text \<open>\<^verbatim>\<open>int(s)\<close> for a non-empty string of digits.\<close>

definition int_of_str :: "string \<Rightarrow> nat" where
  "int_of_str ds = foldl (\<lambda>n c. 10 * n + digit_val c) 0 ds"

definition digit_char :: "nat \<Rightarrow> char" where
  "digit_char d = ''0123456789'' ! d"

text \<open>\<^verbatim>\<open>str(n)\<close> for a non-negative integer: its decimal digits, without leading zeros.\<close>

fun str_nat :: "nat \<Rightarrow> string" where
  "str_nat n =
     (if n < 10 then [digit_char n] else str_nat (n div 10) @ [digit_char (n mod 10)])"

declare str_nat.simps [simp del]

subsection \<open>\<^verbatim>\<open>StrictVersion\<close> and \<^verbatim>\<open>SolidityVersion\<close>\<close>

text \<open>
  An instance has the attributes \<^verbatim>\<open>version\<close>, a tuple \<^verbatim>\<open>(major, minor, patch)\<close>, and
  \<^verbatim>\<open>prerelease\<close>, which is \<^verbatim>\<open>None\<close> or a tuple of the letter \<^verbatim>\<open>a\<close> or \<^verbatim>\<open>b\<close> and a
  number. Python compares tuples lexicographically, as the order of
  \<^verbatim>\<open>HOL-Library.Product_Lexorder\<close> does, and one-character strings by code point, as
  the order of \<^verbatim>\<open>HOL-Library.Char_ord\<close> does.
\<close>

datatype SolidityVersion =
  Version (version: "nat \<times> nat \<times> nat") (prerelease: "(char \<times> nat) option")

abbreviation major :: "SolidityVersion \<Rightarrow> nat" where
  "major v \<equiv> fst (version v)"

abbreviation minor :: "SolidityVersion \<Rightarrow> nat" where
  "minor v \<equiv> fst (snd (version v))"

abbreviation patch :: "SolidityVersion \<Rightarrow> nat" where
  "patch v \<equiv> snd (snd (version v))"

text \<open>
  \<^verbatim>\<open>StrictVersion.version_re\<close> is
  \<^verbatim>\<open>^(\d+) \. (\d+) (\. (\d+))? ([ab](\d+))?$\<close>, compiled with \<^verbatim>\<open>re.VERBOSE | re.ASCII\<close>.
  Every \<^verbatim>\<open>\d+\<close> is followed by something that is not a digit, so it takes all the
  digits there are; \<^verbatim>\<open>$\<close> matches at the end of the string and before a final newline.
\<close>

definition take_digits :: "string \<Rightarrow> string \<times> string" where
  "take_digits s = (takeWhile is_digit s, dropWhile is_digit s)"

text \<open>The optional group \<^verbatim>\<open>(\. (\d+))?\<close>: the patch digits (if it matches) and the rest.\<close>

definition opt_patch :: "string \<Rightarrow> string option \<times> string" where
  "opt_patch s =
     (case s of
        c # r \<Rightarrow>
          (if c = CHR ''.'' \<and> fst (take_digits r) \<noteq> []
           then (Some (fst (take_digits r)), snd (take_digits r))
           else (None, s))
      | [] \<Rightarrow> (None, s))"

text \<open>The optional group \<^verbatim>\<open>([ab](\d+))?\<close>: the letter and the digits, and the rest.\<close>

definition opt_prerelease :: "string \<Rightarrow> (char \<times> string) option \<times> string" where
  "opt_prerelease s =
     (case s of
        c # r \<Rightarrow>
          (if (c = CHR ''a'' \<or> c = CHR ''b'') \<and> fst (take_digits r) \<noteq> []
           then (Some (c, fst (take_digits r)), snd (take_digits r))
           else (None, s))
      | [] \<Rightarrow> (None, s))"

text \<open>
  \<^verbatim>\<open>StrictVersion.parse\<close>: \<^verbatim>\<open>ValueError\<close> when the string does not match; a missing patch
  component is \<^verbatim>\<open>0\<close>.
\<close>

definition StrictVersion_parse :: "string \<Rightarrow> error + SolidityVersion" where
  "StrictVersion_parse vstring =
     (let (major_s, r1) = take_digits vstring in
      if major_s = [] then Inl ValueError else
      (case r1 of
         [] \<Rightarrow> Inl ValueError
       | c # r2 \<Rightarrow>
           if c \<noteq> CHR ''.'' then Inl ValueError else
           (let (minor_s, r3) = take_digits r2 in
            if minor_s = [] then Inl ValueError else
            (let (patch_s, r4) = opt_patch r3;
                 (pre, r5) = opt_prerelease r4
             in if r5 \<noteq> [] \<and> r5 \<noteq> [CHR 0x0A] then Inl ValueError
                else Inr (Version
                  (case patch_s of
                     Some p \<Rightarrow> (int_of_str major_s, int_of_str minor_s, int_of_str p)
                   | None \<Rightarrow> (int_of_str major_s, int_of_str minor_s, 0))
                  (case pre of
                     Some (l, num) \<Rightarrow> Some (l, int_of_str num)
                   | None \<Rightarrow> None))))))"

text \<open>
  The constructor \<^verbatim>\<open>SolidityVersion(vstring)\<close>. \<^verbatim>\<open>StrictVersion.__init__\<close> parses only a
  non-empty string; for the empty string it leaves an object without the attribute
  \<^verbatim>\<open>version\<close>, and the first use of that object (a comparison or \<^verbatim>\<open>str\<close>, which
  follows each construction in this program) raises \<^verbatim>\<open>AttributeError\<close>. The model
  raises it at the construction.
\<close>

definition SolidityVersion :: "string \<Rightarrow> error + SolidityVersion" where
  "SolidityVersion vstring =
     (if vstring = [] then Inl AttributeError else StrictVersion_parse vstring)"

text \<open>
  \<^verbatim>\<open>StrictVersion._cmp\<close>: the version tuples decide when they differ; for equal tuples
  a version without prerelease is greater than one with a prerelease, and two prereleases
  are compared as tuples.
\<close>

definition cmp :: "SolidityVersion \<Rightarrow> SolidityVersion \<Rightarrow> int" where
  "cmp self other =
     (if version self \<noteq> version other then
        (if version self < version other then - 1 else 1)
      else
        (case (prerelease self, prerelease other) of
           (None, None) \<Rightarrow> 0
         | (Some p, None) \<Rightarrow> - 1
         | (None, Some q) \<Rightarrow> 1
         | (Some p, Some q) \<Rightarrow> (if p = q then 0 else if p < q then - 1 else 1)))"

text \<open>
  The rich comparisons of \<^verbatim>\<open>Version\<close>: \<^verbatim>\<open>__lt__\<close> is \<^verbatim>\<open>_cmp < 0\<close>, \<^verbatim>\<open>__le__\<close> is
  \<^verbatim>\<open>_cmp <= 0\<close>; they are the order of the type. \<^verbatim>\<open>__gt__\<close>, \<^verbatim>\<open>__ge__\<close> and \<^verbatim>\<open>__eq__\<close>
  are \<open>gt\<close>, \<open>ge\<close> and \<open>eq\<close> below. That this is a linear order is shown through
  \<open>cmp_key\<close>, which maps a version to a tuple ordered the same way.
\<close>

definition cmp_key :: "SolidityVersion \<Rightarrow> (nat \<times> nat \<times> nat) \<times> nat \<times> char \<times> nat" where
  "cmp_key v =
     (version v, case prerelease v of None \<Rightarrow> (1, CHR ''a'', 0) | Some p \<Rightarrow> (0, p))"

lemma cmp_key_inj: "cmp_key x = cmp_key y \<Longrightarrow> x = y"
  by (cases x; cases y) (auto simp: cmp_key_def split: option.splits)

lemma cmp_less: "(cmp x y < 0) = (cmp_key x < cmp_key y)"
proof (cases "version x = version y")
  case False
  then show ?thesis
    by (auto simp: cmp_def cmp_key_def less_prod_def[of "(version x, _)"])
next
  case True
  then show ?thesis
    by (cases "prerelease x"; cases "prerelease y")
       (simp_all add: cmp_def cmp_key_def less_prod_def[of "(version x, _)"]
          less_prod_def[of "(_::nat, _)"])
qed

lemma cmp_le: "(cmp x y \<le> 0) = (cmp_key x \<le> cmp_key y)"
proof (cases "version x = version y")
  case False
  then show ?thesis
    by (auto simp: cmp_def cmp_key_def less_eq_prod_def[of "(version x, _)"])
next
  case True
  then show ?thesis
    by (cases "prerelease x"; cases "prerelease y")
       (auto simp add: cmp_def cmp_key_def less_eq_prod_def[of "(version x, _)"]
          less_eq_prod_def[of "(_::nat, _)"])
qed

instantiation SolidityVersion :: linorder
begin

definition less_SolidityVersion :: "SolidityVersion \<Rightarrow> SolidityVersion \<Rightarrow> bool" where
  "less_SolidityVersion self other = (cmp self other < 0)"

definition less_eq_SolidityVersion :: "SolidityVersion \<Rightarrow> SolidityVersion \<Rightarrow> bool" where
  "less_eq_SolidityVersion self other = (cmp self other \<le> 0)"

instance
proof
  fix x y z :: SolidityVersion
  show "(x < y) = (x \<le> y \<and> \<not> y \<le> x)"
    unfolding less_SolidityVersion_def less_eq_SolidityVersion_def cmp_less cmp_le
    by (rule less_le_not_le)
  show "x \<le> x"
    unfolding less_eq_SolidityVersion_def cmp_le by (rule order_refl)
  show "x \<le> y \<Longrightarrow> y \<le> z \<Longrightarrow> x \<le> z"
    unfolding less_eq_SolidityVersion_def cmp_le by (rule order_trans)
  show "x \<le> y \<Longrightarrow> y \<le> x \<Longrightarrow> x = y"
    unfolding less_eq_SolidityVersion_def cmp_le
    by (rule cmp_key_inj) (rule order_antisym)
  show "x \<le> y \<or> y \<le> x"
    unfolding less_eq_SolidityVersion_def cmp_le by (rule linear)
qed

end

definition gt :: "SolidityVersion \<Rightarrow> SolidityVersion \<Rightarrow> bool" where
  "gt self other = (cmp self other > 0)"

definition ge :: "SolidityVersion \<Rightarrow> SolidityVersion \<Rightarrow> bool" where
  "ge self other = (cmp self other \<ge> 0)"

definition eq :: "SolidityVersion \<Rightarrow> SolidityVersion \<Rightarrow> bool" where
  "eq self other = (cmp self other = 0)"

text \<open>
  \<^verbatim>\<open>SolidityVersion.__xor__\<close>: \<^verbatim>\<open>self.version[0] == other.version[0] and
  self.version[1:] >= other.version[1:]\<close>.
\<close>

definition xor_version :: "SolidityVersion \<Rightarrow> SolidityVersion \<Rightarrow> bool" where
  "xor_version self other =
     (fst (version self) = fst (version other) \<and> snd (version self) \<ge> snd (version other))"

text \<open>
  \<^verbatim>\<open>StrictVersion.__str__\<close>: two components when the patch is \<^verbatim>\<open>0\<close>, three otherwise,
  then the prerelease.
\<close>

definition join_dot :: "string list \<Rightarrow> string" where
  "join_dot parts = (case parts of [] \<Rightarrow> [] | p # ps \<Rightarrow> p @ concat (map (\<lambda>q. CHR ''.'' # q) ps))"

definition StrictVersion_str :: "SolidityVersion \<Rightarrow> string" where
  "StrictVersion_str self =
     (let vstring =
            (if patch self = 0
             then join_dot (map str_nat [major self, minor self])
             else join_dot (map str_nat [major self, minor self, patch self]))
      in case prerelease self of
           Some (l, n) \<Rightarrow> vstring @ [l] @ str_nat n
         | None \<Rightarrow> vstring)"

text \<open>\<^verbatim>\<open>SolidityVersion.__str__\<close>: appends \<^verbatim>\<open>.0\<close> to a string of at most three characters.\<close>

definition str_version :: "SolidityVersion \<Rightarrow> string" where
  "str_version self =
     (let s = StrictVersion_str self in if length s \<le> 3 then s @ ''.0'' else s)"

subsection \<open>The pattern \<^verbatim>\<open>comp_version_rex\<close> and the table \<^verbatim>\<open>ops\<close>\<close>

text \<open>
  \<^verbatim>\<open>comp_version_rex\<close> is \<^verbatim>\<open>(?P<operator>(<|>|>=|<=|\^)?)(?P<version>\d+\.\d+\.\d+)\<close>.
  \<open>match_version\<close> is the part \<^verbatim>\<open>\d+\.\d+\.\d+\<close> at the start of a string: the matched
  text and what follows it.
\<close>

definition match_version :: "string \<Rightarrow> (string \<times> string) option" where
  "match_version s =
     (let (d1, r1) = take_digits s in
      if d1 = [] then None else
      (case r1 of
         [] \<Rightarrow> None
       | c # r2 \<Rightarrow>
           if c \<noteq> CHR ''.'' then None else
           (let (d2, r3) = take_digits r2 in
            if d2 = [] then None else
            (case r3 of
               [] \<Rightarrow> None
             | c' # r4 \<Rightarrow>
                 if c' \<noteq> CHR ''.'' then None else
                 (let (d3, r5) = take_digits r4 in
                  if d3 = [] then None
                  else Some (d1 @ ''.'' @ d2 @ ''.'' @ d3, r5))))))"

text \<open>\<^verbatim>\<open>s.startswith(p)\<close>.\<close>

fun startswith :: "string \<Rightarrow> string \<Rightarrow> bool" where
  "startswith s [] = True"
| "startswith [] (p # ps) = False"
| "startswith (c # cs) (p # ps) = (c = p \<and> startswith cs ps)"

text \<open>
  The alternatives of the operator group, in the order in which the pattern tries them;
  the last one is the group matching nothing, which \<^verbatim>\<open>?\<close> tries when all others failed.
\<close>

definition alternatives :: "string list" where
  "alternatives = [''<'', ''>'', ''>='', ''<='', ''^'', []]"

fun try_alternatives :: "string list \<Rightarrow> string \<Rightarrow> (string \<times> string \<times> string) option" where
  "try_alternatives [] s = None"
| "try_alternatives (a # as) s =
     (if startswith s a then
        (case match_version (drop (length a) s) of
           Some (ver, rest) \<Rightarrow> Some (a, ver, rest)
         | None \<Rightarrow> try_alternatives as s)
      else try_alternatives as s)"

text \<open>A match of the pattern at the start of a string: operator, version, and the rest.\<close>

definition match_rex :: "string \<Rightarrow> (string \<times> string \<times> string) option" where
  "match_rex s = try_alternatives alternatives s"

lemma match_version_length:
  "match_version s = Some (ver, rest) \<Longrightarrow> length rest < length s"
proof -
  have le: "length (dropWhile is_digit t) \<le> length t" for t
    by (rule length_dropWhile_le)
  assume "match_version s = Some (ver, rest)"
  then obtain r2 r4 where
    "dropWhile is_digit s = CHR ''.'' # r2" "dropWhile is_digit r2 = CHR ''.'' # r4"
    "rest = dropWhile is_digit r4"
    by (auto simp: match_version_def take_digits_def Let_def
          split: list.splits if_splits)
  then show ?thesis
    using le[of s] le[of r2] le[of r4] by simp
qed

lemma try_alternatives_length:
  "try_alternatives as s = Some (a, ver, rest) \<Longrightarrow> length rest < length s"
proof (induction as)
  case Nil
  then show ?case by simp
next
  case (Cons b as)
  then show ?case
    by (auto split: if_splits option.splits dest!: match_version_length)
qed

lemma match_rex_length:
  "match_rex s = Some (a, ver, rest) \<Longrightarrow> length rest < length s"
  unfolding match_rex_def by (rule try_alternatives_length)

text \<open>
  \<^verbatim>\<open>comp_version_rex.findall(l)\<close>: the matches from left to right, none overlapping; the
  search goes on where the last match ended, and one character further where there is no
  match. The pattern has three groups, so each match is the tuple of the named group
  \<^verbatim>\<open>operator\<close>, the group inside it, and the group \<^verbatim>\<open>version\<close>. The first two hold the
  same text (empty when there is no operator).
\<close>

function findall :: "string \<Rightarrow> (string \<times> string \<times> string) list" where
  "findall [] = []"
| "findall (c # cs) =
     (case match_rex (c # cs) of
        Some (a, ver, rest) \<Rightarrow> (a, a, ver) # findall rest
      | None \<Rightarrow> findall cs)"
  by pat_completeness auto
termination
  by (relation "measure length") (auto dest: match_rex_length)

text \<open>The dictionary \<^verbatim>\<open>ops\<close>; \<^verbatim>\<open>operator.lt\<close> and \<^verbatim>\<open>operator.le\<close> are the order of the type.\<close>

definition ops :: "string \<rightharpoonup> (SolidityVersion \<Rightarrow> SolidityVersion \<Rightarrow> bool)" where
  "ops = map_of
     [(''>'', gt),
      (''<'', (<)),
      ([], eq),
      (''>='', ge),
      (''<='', (\<le>)),
      (''^'', xor_version)]"

datatype OperatorVersionTuple =
  OperatorVersionTuple
    (cond_op: "SolidityVersion \<Rightarrow> SolidityVersion \<Rightarrow> bool") (cond_v: SolidityVersion)

subsection \<open>\<^verbatim>\<open>min\<close> and \<^verbatim>\<open>parse_version\<close>\<close>

text \<open>
  \<^verbatim>\<open>min\<close> of an iterable: \<^verbatim>\<open>ValueError\<close> when it is empty; otherwise the first item is
  kept until a later one is smaller (\<^verbatim>\<open>item < m\<close>).
\<close>

definition py_min :: "SolidityVersion list \<Rightarrow> error + SolidityVersion" where
  "py_min xs =
     (case xs of
        [] \<Rightarrow> Inl ValueError
      | x # r \<Rightarrow> Inr (foldl (\<lambda>m item. if item < m then item else m) x r))"

text \<open>The list \<^verbatim>\<open>conditions\<close> that \<^verbatim>\<open>parse_version\<close> builds from the matches of a line.\<close>

fun conditions_of :: "(string \<times> string \<times> string) list \<Rightarrow> error + OperatorVersionTuple list" where
  "conditions_of [] = Inr []"
| "conditions_of (m # ms) =
     (case ops (fst (snd m)) of
        None \<Rightarrow> Inl KeyError
      | Some f \<Rightarrow>
          (case SolidityVersion (snd (snd m)) of
             Inl e \<Rightarrow> Inl e
           | Inr w \<Rightarrow>
               (case conditions_of ms of
                  Inl e \<Rightarrow> Inl e
                | Inr conds \<Rightarrow> Inr (OperatorVersionTuple f w # conds))))"

definition fullfills_all_conditions :: "OperatorVersionTuple list \<Rightarrow> SolidityVersion \<Rightarrow> bool" where
  "fullfills_all_conditions conditions ver =
     list_all (\<lambda>cond. cond_op cond ver (cond_v cond)) conditions"

text \<open>\<^verbatim>\<open>p in l\<close> for strings.\<close>

fun contains :: "string \<Rightarrow> string \<Rightarrow> bool" where
  "contains [] p = (p = [])"
| "contains (c # cs) p = (startswith (c # cs) p \<or> contains cs p)"

definition eligible :: "string \<Rightarrow> bool" where
  "eligible l = (contains l ''pragma'' \<and> \<not> contains l ''experimental'')"

text \<open>
  \<^verbatim>\<open>parse_version\<close>, on the catalog \<^verbatim>\<open>SOLC_VERSIONS\<close> and the lines of the file. The
  first line with \<^verbatim>\<open>pragma\<close> and without \<^verbatim>\<open>experimental\<close> decides; the \<^verbatim>\<open>else\<close> of the
  loop is reached when there is no such line, and \<^verbatim>\<open>SOLC_VERSIONS[-1]\<close> raises
  \<^verbatim>\<open>IndexError\<close> on an empty list.
\<close>

fun parse_version :: "SolidityVersion list \<Rightarrow> string list \<Rightarrow> error + SolidityVersion" where
  "parse_version SOLC_VERSIONS [] =
     (if SOLC_VERSIONS = [] then Inl IndexError else Inr (last SOLC_VERSIONS))"
| "parse_version SOLC_VERSIONS (l # lines) =
     (if eligible l then
        (case conditions_of (findall l) of
           Inl e \<Rightarrow> Inl e
         | Inr conditions \<Rightarrow>
             (case py_min (filter (fullfills_all_conditions conditions) SOLC_VERSIONS) of
                Inl e \<Rightarrow>
                  (if e = ValueError
                   then Inl (CompilerVersionNotSupported ''Conflicting Compiler Requirements'')
                   else Inl e)
              | Inr ver \<Rightarrow> Inr ver))
      else parse_version SOLC_VERSIONS lines)"

subsection \<open>\<^verbatim>\<open>set_supported_solc_versions\<close>\<close>

definition MINIMAL_SOLC_VERSION :: string where
  "MINIMAL_SOLC_VERSION = ''0.4.11''"

text \<open>
  A release of the listing: its \<^verbatim>\<open>tag_name\<close> and the names of its \<^verbatim>\<open>assets\<close>.
\<close>

datatype release = Release (tag_name: string) (assets: "string list")

text \<open>
  The loop over the releases. A release is skipped when its version is below the minimal
  one, or when no asset is named \<^verbatim>\<open>solc-static-linux\<close>; \<^verbatim>\<open>tag_name[1:]\<close> drops
  the first character.
\<close>

fun releases_loop ::
  "SolidityVersion \<Rightarrow> release list \<Rightarrow> SolidityVersion list \<Rightarrow> error + SolidityVersion list" where
  "releases_loop minimal [] versions = Inr versions"
| "releases_loop minimal (r # rs) versions =
     (case SolidityVersion (drop 1 (tag_name r)) of
        Inl e \<Rightarrow> Inl e
      | Inr newversion \<Rightarrow>
          if newversion < minimal then releases_loop minimal rs versions
          else if ''solc-static-linux'' \<notin> set (assets r) then releases_loop minimal rs versions
          else releases_loop minimal rs (versions @ [newversion]))"

text \<open>The comprehension \<^verbatim>\<open>[SolidityVersion(v[1:]) for v in get_installed_solc_versions()]\<close>.\<close>

fun installed_versions :: "string list \<Rightarrow> error + SolidityVersion list" where
  "installed_versions [] = Inr []"
| "installed_versions (i # is) =
     (case SolidityVersion (drop 1 i) of
        Inl e \<Rightarrow> Inl e
      | Inr ver \<Rightarrow>
          (case installed_versions is of
             Inl e \<Rightarrow> Inl e
           | Inr vers \<Rightarrow> Inr (ver # vers)))"

text \<open>
  \<^verbatim>\<open>set_supported_solc_versions\<close>. Its environment: \<open>fetched\<close>, what
  \<^verbatim>\<open>requests.get(RELEASES_LIST).json()\<close> returns or raises, and \<open>installed\<close>, what
  \<^verbatim>\<open>get_installed_solc_versions()\<close> returns. Its state: the global \<^verbatim>\<open>SOLC_VERSIONS\<close>,
  taken as an argument; the result is the new value of the global, or the exception that
  leaves the function (only \<^verbatim>\<open>RequestException\<close> is caught). \<^verbatim>\<open>sorted\<close> returns the
  items in ascending order.
\<close>

definition set_supported_solc_versions ::
  "error + release list \<Rightarrow> string list \<Rightarrow> SolidityVersion list \<Rightarrow> error + SolidityVersion list"
  where
  "set_supported_solc_versions fetched installed SOLC_VERSIONS =
     (case SolidityVersion MINIMAL_SOLC_VERSION of
        Inl e \<Rightarrow> Inl e
      | Inr minimal \<Rightarrow>
          (case fetched of
             Inl e \<Rightarrow>
               if e = RequestException then
                 (case installed_versions installed of
                    Inl e' \<Rightarrow> Inl e'
                  | Inr versions \<Rightarrow> Inr (filter (\<lambda>ver. ge ver minimal) versions))
               else Inl e
           | Inr releases \<Rightarrow>
               (case releases_loop minimal releases [] of
                  Inl e \<Rightarrow> Inl e
                | Inr versions \<Rightarrow> Inr (sort versions))))"

subsection \<open>\<^verbatim>\<open>compile_solfiles\<close>: the remappings and the choice of the version\<close>

text \<open>\<^verbatim>\<open>s.split(sep)\<close> for a separator of one character.\<close>

fun str_split :: "char \<Rightarrow> string \<Rightarrow> string list" where
  "str_split sep [] = [[]]"
| "str_split sep (c # cs) =
     (if c = sep then [] # str_split sep cs
      else (case str_split sep cs of
              p # ps \<Rightarrow> (c # p) # ps
            | [] \<Rightarrow> [[c]]))"

text \<open>\<^verbatim>\<open>posixpath.join(a, b)\<close>: an absolute \<^verbatim>\<open>b\<close> discards \<^verbatim>\<open>a\<close>.\<close>

definition path_join :: "string \<Rightarrow> string \<Rightarrow> string" where
  "path_join a b =
     (if startswith b ''/'' then b
      else if a = [] \<or> last a = CHR ''/'' then a @ b
      else a @ ''/'' @ b)"

text \<open>
  \<^verbatim>\<open>complete_remapping\<close>: unpacking the result of \<^verbatim>\<open>split\<close> into two names raises
  \<^verbatim>\<open>ValueError\<close> unless there are exactly two parts.
\<close>

definition complete_remapping :: "string \<Rightarrow> string \<Rightarrow> error + string" where
  "complete_remapping proj_dir remapping =
     (case str_split CHR ''='' remapping of
        [name, old_path] \<Rightarrow> Inr (name @ ''='' @ path_join proj_dir old_path)
      | _ \<Rightarrow> Inl ValueError)"

text \<open>
  \<^verbatim>\<open>max(map(parse_version, files))\<close>: \<^verbatim>\<open>map\<close> is lazy, so each file is parsed when
  \<^verbatim>\<open>max\<close> asks for the next item, and an exception of \<^verbatim>\<open>parse_version\<close> ends the loop
  there. \<^verbatim>\<open>max\<close> keeps the first item until a later one is greater (\<^verbatim>\<open>item > m\<close>) and
  raises \<^verbatim>\<open>ValueError\<close> when there is no item.
\<close>

fun max_loop ::
  "SolidityVersion list \<Rightarrow> SolidityVersion \<Rightarrow> string list list \<Rightarrow> error + SolidityVersion" where
  "max_loop SOLC_VERSIONS m [] = Inr m"
| "max_loop SOLC_VERSIONS m (f # files) =
     (case parse_version SOLC_VERSIONS f of
        Inl e \<Rightarrow> Inl e
      | Inr item \<Rightarrow> max_loop SOLC_VERSIONS (if gt item m then item else m) files)"

definition max_parse_version ::
  "SolidityVersion list \<Rightarrow> string list list \<Rightarrow> error + SolidityVersion" where
  "max_parse_version SOLC_VERSIONS files =
     (case files of
        [] \<Rightarrow> Inl ValueError
      | f # fs \<Rightarrow>
          (case parse_version SOLC_VERSIONS f of
             Inl e \<Rightarrow> Inl e
           | Inr item \<Rightarrow> max_loop SOLC_VERSIONS item fs))"

text \<open>
  The body of \<^verbatim>\<open>if solc_version is None:\<close> once the catalog is set: the check that the
  catalog is not empty, then the maximum over the files.
\<close>

definition select_version ::
  "SolidityVersion list \<Rightarrow> string list list \<Rightarrow> error + SolidityVersion" where
  "select_version SOLC_VERSIONS files =
     (if length SOLC_VERSIONS = 0
      then Inl (CompilerVersionNotSupported ''No compiler available. No connection to GitHub?'')
      else max_parse_version SOLC_VERSIONS files)"

text \<open>
  The whole of it, for a call without \<^verbatim>\<open>solc_version\<close>: the catalog is refreshed, then
  the version is chosen from the new catalog.
\<close>

definition resolve_solc_version ::
  "error + release list \<Rightarrow> string list \<Rightarrow> SolidityVersion list \<Rightarrow> string list list
     \<Rightarrow> error + SolidityVersion" where
  "resolve_solc_version fetched installed SOLC_VERSIONS files =
     (case set_supported_solc_versions fetched installed SOLC_VERSIONS of
        Inl e \<Rightarrow> Inl e
      | Inr catalog \<Rightarrow> select_version catalog files)"

section \<open>Properties\<close>

subsection \<open>Comparisons, \<^verbatim>\<open>min\<close>, and the lines before the first eligible one\<close>

lemma gt_iff: "gt a b = (b < a)"
proof -
  have "gt a b = (\<not> a \<le> b)"
    by (simp add: gt_def less_eq_SolidityVersion_def not_le)
  then show ?thesis by (simp add: not_le)
qed

lemma ge_iff: "ge a b = (b \<le> a)"
proof -
  have "ge a b = (\<not> a < b)"
    by (simp add: ge_def less_SolidityVersion_def not_less)
  then show ?thesis by (simp add: not_less)
qed

lemma eq_iff_eq: "eq a b = (a = b)"
proof -
  have "eq a b = (a \<le> b \<and> \<not> a < b)"
    by (auto simp: eq_def less_SolidityVersion_def less_eq_SolidityVersion_def)
  then show ?thesis by auto
qed

lemma py_min_Min: "xs \<noteq> [] \<Longrightarrow> py_min xs = Inr (Min (set xs))"
proof -
  have f: "(\<lambda>item m. if item < m then item else m) = (min :: SolidityVersion \<Rightarrow> _)"
    by (auto simp: fun_eq_iff min_def)
  assume "xs \<noteq> []"
  then obtain x r where xs: "xs = x # r" by (cases xs) auto
  have "foldl (\<lambda>m item. if item < m then item else m) x r = Min (set (x # r))"
    by (simp only: foldl_conv_fold f Min.set_eq_fold)
  then show ?thesis
    unfolding xs py_min_def by simp
qed

lemma py_min_Nil: "py_min [] = Inl ValueError"
  by (simp add: py_min_def)

lemma parse_version_skip:
  "\<not> list_ex eligible pre \<Longrightarrow> parse_version cat (pre @ lines) = parse_version cat lines"
  by (induction pre) auto

text \<open>
  On the strings of the model (code points below 256) every match of
  \<^verbatim>\<open>comp_version_rex\<close> has an operator of the table \<^verbatim>\<open>ops\<close> and a version text that
  \<^verbatim>\<open>StrictVersion\<close> accepts, so building \<^verbatim>\<open>conditions\<close> does not raise there. The
  theorems of the claims do not rest on this: where they need the conditions of a line or
  the result of a file, it is a hypothesis.
\<close>

lemma take_digits_append:
  assumes "\<forall>c\<in>set ds. is_digit c" and "rest = [] \<or> \<not> is_digit (hd rest)"
  shows "take_digits (ds @ rest) = (ds, rest)"
proof -
  have "takeWhile is_digit rest = []" "dropWhile is_digit rest = rest"
    using assms(2) by (cases rest; simp)+
  then show ?thesis
    using assms(1) by (simp add: take_digits_def takeWhile_append2 dropWhile_append2)
qed

lemma not_digit_dot [simp]: "\<not> is_digit CHR ''.''"
  by (simp add: is_digit_def)

lemma match_version_parses:
  assumes "match_version s = Some (ver, rest)"
  shows "\<exists>w. SolidityVersion ver = Inr w"
proof -
  from assms obtain d1 d2 d3 where
    ver: "ver = d1 @ ''.'' @ d2 @ ''.'' @ d3" and
    d: "d1 \<noteq> []" "d2 \<noteq> []" "d3 \<noteq> []"
       "\<forall>c\<in>set d1. is_digit c" "\<forall>c\<in>set d2. is_digit c" "\<forall>c\<in>set d3. is_digit c"
    by (auto simp: match_version_def take_digits_def Let_def
          split: list.splits if_splits dest: set_takeWhileD)
  have t1: "take_digits ver = (d1, ''.'' @ d2 @ ''.'' @ d3)"
    unfolding ver using d by (intro take_digits_append) auto
  have t2: "take_digits (d2 @ ''.'' @ d3) = (d2, ''.'' @ d3)"
    using d by (intro take_digits_append) auto
  have t3: "take_digits d3 = (d3, [])"
    using take_digits_append[of d3 "[]"] d by simp
  have p: "opt_patch (''.'' @ d3) = (Some d3, [])"
    using d t3 by (simp add: opt_patch_def)
  have q: "opt_prerelease [] = (None, [])"
    by (simp add: opt_prerelease_def)
  have "ver \<noteq> []" using d ver by simp
  then show ?thesis
    using d t1 t2 p q by (simp add: SolidityVersion_def StrictVersion_parse_def)
qed

lemma try_alternatives_sound:
  "try_alternatives as s = Some (a, ver, rest) \<Longrightarrow>
     a \<in> set as \<and> (\<exists>w. SolidityVersion ver = Inr w)"
proof (induction as)
  case Nil
  then show ?case by simp
next
  case (Cons b as)
  then show ?case
    by (auto split: if_splits option.splits dest: match_version_parses)
qed

lemma ops_alternatives: "a \<in> set alternatives \<Longrightarrow> \<exists>f. ops a = Some f"
  by (auto simp: alternatives_def ops_def)

lemma conditions_of_findall:
  "\<exists>conditions. conditions_of (findall l) = Inr conditions
     \<and> length conditions = length (findall l)"
proof (induction l rule: findall.induct)
  case 1
  then show ?case by simp
next
  case (2 c cs)
  show ?case
  proof (cases "match_rex (c # cs)")
    case None
    with 2 show ?thesis by simp
  next
    case (Some m)
    obtain a ver rest where m: "m = (a, ver, rest)" by (cases m) auto
    from Some m try_alternatives_sound[of alternatives "c # cs" a ver rest]
    obtain f w where "ops a = Some f" "SolidityVersion ver = Inr w"
      unfolding match_rex_def using ops_alternatives by blast
    moreover have "\<exists>conditions. conditions_of (findall rest) = Inr conditions
        \<and> length conditions = length (findall rest)"
      using 2 Some m by fastforce
    ultimately show ?thesis
      using Some m by auto
  qed
qed

subsection \<open>The version type\<close>

text \<open>
  Claim C3. The caret relation, which the table \<^verbatim>\<open>ops\<close> holds under \<^verbatim>\<open>^\<close>, holds
  between a candidate and a requirement exactly when both have the same major component
  and the pair (minor, patch) of the candidate is at least that of the requirement, in
  the lexicographic order of pairs.
\<close>

theorem caret_compatibility:
  "ops ''^'' = Some xor_version \<and>
   (xor_version candidate requirement \<longleftrightarrow>
      major candidate = major requirement \<and>
      (minor requirement < minor candidate \<or>
       (minor requirement = minor candidate \<and> patch requirement \<le> patch candidate)))"
proof
  show "ops ''^'' = Some xor_version"
    by (simp add: ops_def)
  obtain a b c where c: "version candidate = (a, b, c)"
    by (cases "version candidate") auto
  obtain d e f where r: "version requirement = (d, e, f)"
    by (cases "version requirement") auto
  show "xor_version candidate requirement \<longleftrightarrow>
      major candidate = major requirement \<and>
      (minor requirement < minor candidate \<or>
       (minor requirement = minor candidate \<and> patch requirement \<le> patch candidate))"
    unfolding xor_version_def c r by (auto simp: less_eq_prod_def)
qed

text \<open>
  Claim C7. The string \<^verbatim>\<open>0.5\<close>, made a \<^verbatim>\<open>SolidityVersion\<close> and converted back with
  \<^verbatim>\<open>str\<close>, is \<^verbatim>\<open>0.5.0\<close>.
\<close>

theorem version_0_5_round_trip:
  "map_sum id str_version (SolidityVersion ''0.5'') = Inr ''0.5.0''"
  by code_simp

text \<open>
  Claim C9. For a version \<^verbatim>\<open>a.b.0\<close> (patch zero, no prerelease), \<^verbatim>\<open>__str__\<close> gives the
  three components \<^verbatim>\<open>a.b.0\<close> only when the text \<^verbatim>\<open>a.b\<close> has at most three characters;
  when it is longer, as for \<^verbatim>\<open>0.10.0\<close> and \<^verbatim>\<open>1.12.0\<close>, the result is \<^verbatim>\<open>a.b\<close> alone.
\<close>

theorem str_version_zero_patch:
  assumes "version ver = (a, b, 0)" and "prerelease ver = None"
  shows "str_version ver =
           (if length (str_nat a @ ''.'' @ str_nat b) \<le> 3
            then str_nat a @ ''.'' @ str_nat b @ ''.0''
            else str_nat a @ ''.'' @ str_nat b)"
  using assms by (simp add: str_version_def StrictVersion_str_def join_dot_def)

theorem str_version_zero_patch_witness:
  "version (Version (0, 10, 0) None) = (0, 10, 0) \<and>
   prerelease (Version (0, 10, 0) None) = None \<and>
   str_version (Version (0, 10, 0) None) = ''0.10'' \<and>
   str_version (Version (1, 12, 0) None) = ''1.12'' \<and>
   str_version (Version (0, 5, 0) None) = ''0.5.0''"
proof -
  have n: "str_nat 0 = ''0''" "str_nat 1 = ''1''" "str_nat 5 = ''5''"
    "str_nat 10 = ''10''" "str_nat 12 = ''12''" "str_nat (Suc 0) = ''1''"
    by code_simp+
  show ?thesis
    using str_version_zero_patch[of "Version (0, 10, 0) None" 0 10]
      str_version_zero_patch[of "Version (1, 12, 0) None" 1 12]
      str_version_zero_patch[of "Version (0, 5, 0) None" 0 5]
    by (simp add: n)
qed

subsection \<open>Remappings\<close>

lemma split_no_sep: "sep \<notin> set s \<Longrightarrow> str_split sep s = [s]"
  by (induction s) auto

lemma split_one_sep:
  "sep \<notin> set name \<Longrightarrow> sep \<notin> set path \<Longrightarrow> str_split sep (name @ sep # path) = [name, path]"
  by (induction name) (auto simp: split_no_sep)

text \<open>
  Claim C10. For a remapping \<^verbatim>\<open>name=path\<close>, \<^verbatim>\<open>complete_remapping\<close> returns the entry
  unchanged when the path is absolute: the join discards the project root. Only a
  relative path is prefixed with the project root.
\<close>

theorem complete_remapping_absolute:
  assumes "CHR ''='' \<notin> set name" and "CHR ''='' \<notin> set old_path"
  shows "complete_remapping proj_dir (name @ ''='' @ old_path) =
           Inr (name @ ''='' @
             (if startswith old_path ''/'' then old_path
              else if proj_dir = [] \<or> last proj_dir = CHR ''/'' then proj_dir @ old_path
              else proj_dir @ ''/'' @ old_path))"
  using assms by (simp add: complete_remapping_def split_one_sep path_join_def)

theorem complete_remapping_absolute_witness:
  "CHR ''='' \<notin> set ''foo'' \<and> CHR ''='' \<notin> set ''/abs/foo'' \<and> CHR ''='' \<notin> set ''lib/foo'' \<and>
   complete_remapping ''/proj'' ''foo=/abs/foo'' = Inr ''foo=/abs/foo'' \<and>
   complete_remapping ''/proj'' ''foo=lib/foo'' = Inr ''foo=/proj/lib/foo''"
  using complete_remapping_absolute[of "''foo''" "''/abs/foo''" "''/proj''"]
    complete_remapping_absolute[of "''foo''" "''lib/foo''" "''/proj''"]
  by simp

subsection \<open>The version of one file\<close>

lemma parse_version_eligible:
  assumes "eligible l" and "conditions_of (findall l) = Inr conditions"
  shows "parse_version cat (l # post) =
           (if \<exists>ver\<in>set cat. fullfills_all_conditions conditions ver
            then Inr (Min {ver \<in> set cat. fullfills_all_conditions conditions ver})
            else Inl (CompilerVersionNotSupported ''Conflicting Compiler Requirements''))"
proof (cases "filter (fullfills_all_conditions conditions) cat = []")
  case True
  then have "\<not> (\<exists>ver\<in>set cat. fullfills_all_conditions conditions ver)"
    by (simp add: filter_empty_conv)
  then show ?thesis
    using assms True by (simp add: py_min_Nil)
next
  case False
  then have "\<exists>ver\<in>set cat. fullfills_all_conditions conditions ver"
    by (simp add: filter_empty_conv)
  then show ?thesis
    using assms py_min_Min[OF False] by simp
qed

lemma parse_version_no_eligible:
  "\<not> list_ex eligible lines \<Longrightarrow>
     parse_version cat lines = (if cat = [] then Inl IndexError else Inr (last cat))"
  by (induction lines) auto

lemma v_0_4_24: "SolidityVersion ''0.4.24'' = Inr (Version (0, 4, 24) None)"
  by code_simp

lemma v_0_6_0: "SolidityVersion ''0.6.0'' = Inr (Version (0, 6, 0) None)"
  by code_simp

text \<open>
  Claim C1. When the first eligible line of a file (the first with \<^verbatim>\<open>pragma\<close> and without
  \<^verbatim>\<open>experimental\<close>) declares at least one constraint, and some version of the catalog
  satisfies all the constraints of that line, \<^verbatim>\<open>parse_version\<close> returns the least version
  of the catalog that satisfies them all. By \<open>conditions_of_findall\<close> the list
  \<open>conditions\<close> exists for every line of the model. For the line \<^verbatim>\<open>>=0.4.24 <0.6.0\<close> and the catalog
  0.4.11, 0.4.24, 0.4.25, 0.6.0, 0.6.1 the result is 0.4.24.
\<close>

theorem parse_version_minimum_satisfying:
  assumes "\<not> list_ex eligible pre" and "eligible l" and "findall l \<noteq> []"
    and "conditions_of (findall l) = Inr conditions"
    and "\<exists>ver\<in>set cat. fullfills_all_conditions conditions ver"
  shows "parse_version cat (pre @ l # post) =
           Inr (Min {ver \<in> set cat. fullfills_all_conditions conditions ver})"
  using assms by (simp add: parse_version_skip parse_version_eligible del: parse_version.simps)

theorem parse_version_minimum_satisfying_witness:
  "\<not> list_ex eligible [''// SPDX'', ''pragma experimental ABIEncoderV2;''] \<and>
   eligible ''pragma solidity >=0.4.24 <0.6.0;'' \<and>
   findall ''pragma solidity >=0.4.24 <0.6.0;'' \<noteq> [] \<and>
   parse_version
     [Version (0, 4, 11) None, Version (0, 4, 24) None, Version (0, 4, 25) None,
      Version (0, 6, 0) None, Version (0, 6, 1) None]
     ([''// SPDX'', ''pragma experimental ABIEncoderV2;''] @
      ''pragma solidity >=0.4.24 <0.6.0;'' # [''contract C {}'']) =
   Inr (Version (0, 4, 24) None)"
proof -
  let ?cat = "[Version (0, 4, 11) None, Version (0, 4, 24) None, Version (0, 4, 25) None,
      Version (0, 6, 0) None, Version (0, 6, 1) None]"
  let ?l = "''pragma solidity >=0.4.24 <0.6.0;''"
  let ?conds = "[OperatorVersionTuple ge (Version (0, 4, 24) None),
      OperatorVersionTuple (<) (Version (0, 6, 0) None)]"
  have pre: "\<not> list_ex eligible [''// SPDX'', ''pragma experimental ABIEncoderV2;'']"
    by code_simp
  have el: "eligible ?l"
    by code_simp
  have fa: "findall ?l = [(''>='', ''>='', ''0.4.24''), (''<'', ''<'', ''0.6.0'')]"
    by code_simp
  have ne: "findall ?l \<noteq> []"
    by (subst fa) simp
  have conds: "conditions_of (findall ?l) = Inr ?conds"
    by (subst fa) (simp add: ops_def v_0_4_24 v_0_6_0)
  have flt: "filter (fullfills_all_conditions ?conds) ?cat =
      [Version (0, 4, 24) None, Version (0, 4, 25) None]"
    by code_simp
  have sat: "\<exists>ver\<in>set ?cat. fullfills_all_conditions ?conds ver"
    using flt by (metis filter_empty_conv list.distinct(1))
  have st: "{ver \<in> set ?cat. fullfills_all_conditions ?conds ver} =
      set [Version (0, 4, 24) None, Version (0, 4, 25) None]"
    using flt by (metis set_filter)
  have mn: "Min (set [Version (0, 4, 24) None, Version (0, 4, 25) None]) = Version (0, 4, 24) None"
    by code_simp
  show ?thesis
    using parse_version_minimum_satisfying[OF pre el ne conds sat, of "[''contract C {}'']"]
      pre el ne
    by (simp only: st mn simp_thms)
qed

text \<open>
  Claim C8. When the first eligible line of a file has no match of the pattern, the list
  of conditions is empty, every version fulfils it, and the result is the least version of
  the catalog (not empty); a file without an eligible line gets the last version instead.
\<close>

theorem parse_version_empty_conditions:
  assumes "cat \<noteq> []" and "\<not> list_ex eligible pre" and "eligible l" and "findall l = []"
  shows "parse_version cat (pre @ l # post) = Inr (Min (set cat))"
proof -
  have "conditions_of (findall l) = Inr []"
    using assms(4) by simp
  from parse_version_eligible[OF assms(3) this, of cat post] assms(1,2)
  show ?thesis
    by (simp add: parse_version_skip fullfills_all_conditions_def del: parse_version.simps)
qed

theorem parse_version_empty_conditions_witness:
  "eligible ''pragma solidity;'' \<and> findall ''pragma solidity;'' = [] \<and>
   parse_version
     [Version (0, 4, 11) None, Version (0, 4, 24) None, Version (0, 4, 25) None,
      Version (0, 6, 0) None, Version (0, 6, 1) None]
     ([''// SPDX''] @ ''pragma solidity;'' # [''contract C {}'']) =
   Inr (Version (0, 4, 11) None) \<and>
   parse_version
     [Version (0, 4, 11) None, Version (0, 4, 24) None, Version (0, 4, 25) None,
      Version (0, 6, 0) None, Version (0, 6, 1) None]
     [''// SPDX'', ''contract C {}''] =
   Inr (Version (0, 6, 1) None)"
proof -
  let ?cat = "[Version (0, 4, 11) None, Version (0, 4, 24) None, Version (0, 4, 25) None,
      Version (0, 6, 0) None, Version (0, 6, 1) None]"
  have ne: "?cat \<noteq> []"
    by simp
  have pre: "\<not> list_ex eligible [''// SPDX'']"
    by code_simp
  have el: "eligible ''pragma solidity;''"
    by code_simp
  have fa: "findall ''pragma solidity;'' = []"
    by code_simp
  have mn: "Min (set ?cat) = Version (0, 4, 11) None"
    by code_simp
  have other: "parse_version ?cat [''// SPDX'', ''contract C {}''] = Inr (Version (0, 6, 1) None)"
    by code_simp
  show ?thesis
    using parse_version_empty_conditions[OF ne pre el fa, of "[''contract C {}'']"] el fa other
    by (simp only: mn simp_thms)
qed

subsection \<open>The version of a project\<close>

lemma max_loop_fold:
  "list_all2 (\<lambda>f ver. parse_version cat f = Inr ver) files vers \<Longrightarrow>
     max_loop cat m files = Inr (fold max vers m)"
proof (induction files vers arbitrary: m rule: list_all2_induct)
  case Nil
  then show ?case by simp
next
  case (Cons f files ver vers)
  have "(if gt ver m then ver else m) = max ver m"
    by (auto simp: gt_iff max_def)
  with Cons show ?case by simp
qed

lemma max_loop_first_error:
  "parse_version cat f = Inl e \<Longrightarrow>
   \<forall>g\<in>set before. \<forall>e'. parse_version cat g = Inl e' \<longrightarrow> e' = e \<Longrightarrow>
   max_loop cat m (before @ f # after) = Inl e"
proof (induction before arbitrary: m)
  case Nil
  then show ?case by simp
next
  case (Cons g before)
  show ?case
  proof (cases "parse_version cat g")
    case (Inl e')
    with Cons.prems(2) show ?thesis by simp
  next
    case (Inr item)
    from Cons.IH[OF Cons.prems(1)] Cons.prems(2) Inr show ?thesis by simp
  qed
qed

text \<open>
  Claim C2. For a catalog and a list of files that are not empty, where every file has a
  preferred version, the version chosen for the project is the greatest of the preferred
  versions of the files. Two files with the preferred versions 0.4.24 and 0.5.0 give
  0.5.0.
\<close>

theorem project_version_is_maximum:
  assumes "cat \<noteq> []" and "files \<noteq> []"
    and "list_all2 (\<lambda>f ver. parse_version cat f = Inr ver) files vers"
  shows "select_version cat files = Inr (Max (set vers))"
proof -
  from assms(2,3) obtain f fs ver vs where
    files: "files = f # fs" and vers: "vers = ver # vs" and
    f: "parse_version cat f = Inr ver" and
    fs: "list_all2 (\<lambda>f ver. parse_version cat f = Inr ver) fs vs"
    by (cases files; cases vers) auto
  have "max_loop cat ver fs = Inr (Max (set (ver # vs)))"
    using max_loop_fold[OF fs, of ver] by (simp only: Max.set_eq_fold)
  then show ?thesis
    using assms(1) f by (simp add: select_version_def max_parse_version_def files vers)
qed

theorem project_version_is_maximum_witness:
  "parse_version
     [Version (0, 4, 24) None, Version (0, 4, 25) None, Version (0, 5, 0) None,
      Version (0, 5, 1) None]
     [''pragma solidity ^0.4.24;''] = Inr (Version (0, 4, 24) None) \<and>
   parse_version
     [Version (0, 4, 24) None, Version (0, 4, 25) None, Version (0, 5, 0) None,
      Version (0, 5, 1) None]
     [''pragma solidity ^0.5.0;''] = Inr (Version (0, 5, 0) None) \<and>
   select_version
     [Version (0, 4, 24) None, Version (0, 4, 25) None, Version (0, 5, 0) None,
      Version (0, 5, 1) None]
     [[''pragma solidity ^0.4.24;''], [''pragma solidity ^0.5.0;'']] =
   Inr (Version (0, 5, 0) None)"
proof -
  let ?cat = "[Version (0, 4, 24) None, Version (0, 4, 25) None, Version (0, 5, 0) None,
      Version (0, 5, 1) None]"
  let ?files = "[[''pragma solidity ^0.4.24;''], [''pragma solidity ^0.5.0;'']]"
  have ne: "?cat \<noteq> []" "?files \<noteq> []"
    by simp_all
  have p1: "parse_version ?cat [''pragma solidity ^0.4.24;''] = Inr (Version (0, 4, 24) None)"
    by code_simp
  have p2: "parse_version ?cat [''pragma solidity ^0.5.0;''] = Inr (Version (0, 5, 0) None)"
    by code_simp
  have all: "list_all2 (\<lambda>f ver. parse_version ?cat f = Inr ver) ?files
      [Version (0, 4, 24) None, Version (0, 5, 0) None]"
    using p1 p2 by (simp only: list_all2_Cons list_all2_Nil simp_thms)
  have mx: "Max (set [Version (0, 4, 24) None, Version (0, 5, 0) None]) = Version (0, 5, 0) None"
    by code_simp
  show ?thesis
    using project_version_is_maximum[OF ne all] p1 p2
    by (simp only: mx simp_thms)
qed

lemma v_1_0_0: "SolidityVersion ''1.0.0'' = Inr (Version (1, 0, 0) None)"
  by code_simp

text \<open>
  Claim C4. When no version of the (populated) catalog satisfies the constraints of the
  first eligible line of a file, \<^verbatim>\<open>parse_version\<close> raises
  \<^verbatim>\<open>CompilerVersionNotSupported\<close> with the text \<^verbatim>\<open>Conflicting Compiler Requirements\<close> on
  that file. The choice of the version for the project ends with that exception when it
  comes to that file, whatever the files after it are, so no maximum is produced. The
  files before it are those that \<^verbatim>\<open>max\<close> has asked for already: each of them returned a
  version, or raised the same exception, in which case the loop ended there.
\<close>

theorem conflicting_requirements:
  assumes "cat \<noteq> []" and "f = pre @ l # post"
    and "\<not> list_ex eligible pre" and "eligible l"
    and "conditions_of (findall l) = Inr conditions"
    and "\<not> (\<exists>ver\<in>set cat. fullfills_all_conditions conditions ver)"
    and "\<forall>g\<in>set before. \<forall>e. parse_version cat g = Inl e \<longrightarrow>
           e = CompilerVersionNotSupported ''Conflicting Compiler Requirements''"
  shows "parse_version cat f =
           Inl (CompilerVersionNotSupported ''Conflicting Compiler Requirements'') \<and>
         select_version cat (before @ f # after) =
           Inl (CompilerVersionNotSupported ''Conflicting Compiler Requirements'')"
proof -
  let ?E = "CompilerVersionNotSupported ''Conflicting Compiler Requirements''"
  have f: "parse_version cat f = Inl ?E"
    using assms(2-6)
    by (simp add: parse_version_skip parse_version_eligible del: parse_version.simps)
  have "max_parse_version cat (before @ f # after) = Inl ?E"
  proof (cases before)
    case Nil
    with f show ?thesis
      by (simp add: max_parse_version_def)
  next
    case (Cons g gs)
    show ?thesis
    proof (cases "parse_version cat g")
      case (Inl e')
      with assms(7) Cons show ?thesis
        by (simp add: max_parse_version_def)
    next
      case (Inr item)
      have "\<forall>h\<in>set gs. \<forall>e'. parse_version cat h = Inl e' \<longrightarrow> e' = ?E"
        using assms(7) Cons by simp
      from max_loop_first_error[OF f this, of item after] Cons Inr show ?thesis
        by (simp add: max_parse_version_def)
    qed
  qed
  with f assms(1) show ?thesis
    by (simp add: select_version_def)
qed

theorem conflicting_requirements_witness:
  "eligible ''pragma solidity >=1.0.0;'' \<and>
   parse_version [Version (0, 4, 11) None, Version (0, 8, 0) None]
     [''pragma solidity ^0.4.11;''] = Inr (Version (0, 4, 11) None) \<and>
   parse_version [Version (0, 4, 11) None, Version (0, 8, 0) None]
     [''pragma solidity >=1.0.0;''] =
   Inl (CompilerVersionNotSupported ''Conflicting Compiler Requirements'') \<and>
   select_version [Version (0, 4, 11) None, Version (0, 8, 0) None]
     ([[''pragma solidity ^0.4.11;'']] @ [''pragma solidity >=1.0.0;''] # [[''contract C {}'']]) =
   Inl (CompilerVersionNotSupported ''Conflicting Compiler Requirements'')"
proof -
  let ?cat = "[Version (0, 4, 11) None, Version (0, 8, 0) None]"
  let ?l = "''pragma solidity >=1.0.0;''"
  let ?g = "[''pragma solidity ^0.4.11;'']"
  let ?conds = "[OperatorVersionTuple ge (Version (1, 0, 0) None)]"
  let ?E = "CompilerVersionNotSupported ''Conflicting Compiler Requirements''"
  have ne: "?cat \<noteq> []"
    by simp
  have f: "[?l] = [] @ ?l # []"
    by simp
  have pre: "\<not> list_ex eligible []"
    by simp
  have el: "eligible ?l"
    by code_simp
  have fa: "findall ?l = [(''>='', ''>='', ''1.0.0'')]"
    by code_simp
  have conds: "conditions_of (findall ?l) = Inr ?conds"
    by (subst fa) (simp add: ops_def v_1_0_0)
  have flt: "filter (fullfills_all_conditions ?conds) ?cat = []"
    by code_simp
  have unsat: "\<not> (\<exists>ver\<in>set ?cat. fullfills_all_conditions ?conds ver)"
    using flt by (metis filter_empty_conv)
  have g: "parse_version ?cat ?g = Inr (Version (0, 4, 11) None)"
    by code_simp
  have before: "\<forall>h\<in>set [?g]. \<forall>e. parse_version ?cat h = Inl e \<longrightarrow> e = ?E"
    by (simp only: list.set ball_simps g) simp
  show ?thesis
    using conflicting_requirements[OF ne f pre el conds unsat before, of "[[''contract C {}'']]"]
      el g
    by (simp only: simp_thms)
qed

subsection \<open>The catalog\<close>

lemma installed_versions_all:
  "list_all2 (\<lambda>i ver. SolidityVersion (drop 1 i) = Inr ver) installed versions \<Longrightarrow>
     installed_versions installed = Inr versions"
  by (induction installed versions rule: list_all2_induct) auto

lemma minimal_version: "SolidityVersion MINIMAL_SOLC_VERSION = Inr (Version (0, 4, 11) None)"
  unfolding MINIMAL_SOLC_VERSION_def by code_simp

text \<open>
  Claim C6. When the fetch of the release listing raises \<^verbatim>\<open>RequestException\<close>, and the
  identifiers of the installed versions are well formed, \<^verbatim>\<open>set_supported_solc_versions\<close>
  does not raise: the new catalog is the list of the installed versions that are at least
  0.4.11, whatever the catalog was before.
\<close>

theorem fallback_replaces_catalog:
  assumes "list_all2 (\<lambda>i ver. SolidityVersion (drop 1 i) = Inr ver) installed versions"
  shows "set_supported_solc_versions (Inl RequestException) installed SOLC_VERSIONS =
           Inr (filter (\<lambda>ver. Version (0, 4, 11) None \<le> ver) versions)"
  using installed_versions_all[OF assms]
  by (simp add: set_supported_solc_versions_def minimal_version ge_iff)

theorem fallback_replaces_catalog_witness:
  "set_supported_solc_versions (Inl RequestException) [''v0.4.10'', ''v0.5.2'', ''v0.4.11'']
     [Version (0, 8, 0) None] =
   Inr [Version (0, 5, 2) None, Version (0, 4, 11) None]"
proof -
  have i: "SolidityVersion (drop 1 ''v0.4.10'') = Inr (Version (0, 4, 10) None)"
    "SolidityVersion (drop 1 ''v0.5.2'') = Inr (Version (0, 5, 2) None)"
    "SolidityVersion (drop 1 ''v0.4.11'') = Inr (Version (0, 4, 11) None)"
    by code_simp+
  have all: "list_all2 (\<lambda>i ver. SolidityVersion (drop 1 i) = Inr ver)
      [''v0.4.10'', ''v0.5.2'', ''v0.4.11'']
      [Version (0, 4, 10) None, Version (0, 5, 2) None, Version (0, 4, 11) None]"
    using i by (simp only: list_all2_Cons list_all2_Nil simp_thms)
  have flt: "filter (\<lambda>ver. Version (0, 4, 11) None \<le> ver)
      [Version (0, 4, 10) None, Version (0, 5, 2) None, Version (0, 4, 11) None] =
      [Version (0, 5, 2) None, Version (0, 4, 11) None]"
    by code_simp
  show ?thesis
    using fallback_replaces_catalog[OF all, of "[Version (0, 8, 0) None]"]
    by (simp only: flt)
qed

text \<open>
  A file without an eligible line gets \<^verbatim>\<open>SOLC_VERSIONS[-1]\<close>. The catalog built from the
  release listing is sorted, so there the last version is the greatest one.
\<close>

lemma sorted_last_Max:
  fixes cat :: "SolidityVersion list"
  assumes "cat \<noteq> []" and "sorted cat"
  shows "last cat = Max (set cat)"
proof -
  have "\<forall>x\<in>set cat. x \<le> last cat"
    using assms(2) by (induction cat) auto
  then show ?thesis
    using assms(1) by (intro Max_eqI[symmetric]) auto
qed

lemma remote_catalog_sorted:
  "set_supported_solc_versions (Inr releases) installed SOLC_VERSIONS = Inr cat \<Longrightarrow> sorted cat"
  by (auto simp: set_supported_solc_versions_def minimal_version split: sum.splits)

lemma parse_version_no_pragma_sorted:
  assumes "cat \<noteq> []" and "sorted cat" and "\<not> list_ex eligible lines"
  shows "parse_version cat lines = Inr (Max (set cat))"
  using assms by (simp add: parse_version_no_eligible sorted_last_Max)

text \<open>
  Claim C5. A file without a version declaration resolves to the greatest version of the
  catalog: this fails for the catalog built from the installed versions, which is not
  sorted. With the installed versions \<^verbatim>\<open>v0.5.10\<close> and \<^verbatim>\<open>v0.5.2\<close>, listed in this order,
  and no connection, the file resolves to 0.5.2, while the greatest version of the
  catalog is 0.5.10.
\<close>

theorem no_pragma_fallback_not_maximum:
  "set_supported_solc_versions (Inl RequestException) [''v0.5.10'', ''v0.5.2''] [] =
     Inr [Version (0, 5, 10) None, Version (0, 5, 2) None] \<and>
   \<not> list_ex (\<lambda>l. contains l ''pragma'') [''contract C {}''] \<and>
   resolve_solc_version (Inl RequestException) [''v0.5.10'', ''v0.5.2''] [] [[''contract C {}'']] =
     Inr (Version (0, 5, 2) None) \<and>
   Max (set [Version (0, 5, 10) None, Version (0, 5, 2) None]) = Version (0, 5, 10) None"
  by code_simp

end
